theory Spec2Isabelle
  imports Main "HOL-Library.AList"
begin

section \<open>Python values used by the map and the runner\<close>

text \<open>
  \<^verbatim>\<open>sep.join(parts)\<close> of Python strings: the parts in order, the separator between
  every two neighbours and nowhere else.
\<close>

fun join :: "string \<Rightarrow> string list \<Rightarrow> string" where
  "join sep [] = []"
| "join sep [x] = x"
| "join sep (x # y # ys) = x @ sep @ join sep (y # ys)"

text \<open>
  A scalar Python value as it occurs in keyword arguments (a timeout, a name, a flag).
\<close>

datatype pyval = PNone | PStr string | PInt int | PBool bool | PList "string list"

text \<open>
  The configured stop signal: \<^verbatim>\<open>None\<close>, a signal name or a signal number.
\<close>

datatype stop_sig = SigNone | SigName string | SigNum int

section \<open>The data model of a container map\<close>

text \<open>
  Modelled from the spec: the value types of \<^verbatim>\<open>dockermap.map.input\<close> and the class
  \<^verbatim>\<open>ContainerAssignment\<close> of \<^verbatim>\<open>dockermap.map.assignment\<close> are not among the sources.
  The records below hold the attributes that \<^verbatim>\<open>container.py\<close> and the runner mixins read
  (\<^verbatim>\<open>b.volume\<close>, \<^verbatim>\<open>l.container\<close>, \<^verbatim>\<open>run_cmd.cmd\<close>, \<^verbatim>\<open>run_cmd.user\<close>, \<^verbatim>\<open>instances\<close>,
  \<^verbatim>\<open>shares\<close>, \<^verbatim>\<open>binds\<close>, \<^verbatim>\<open>uses\<close>, \<^verbatim>\<open>attaches\<close>, \<^verbatim>\<open>links_to\<close>, \<^verbatim>\<open>exec_commands\<close>,
  \<^verbatim>\<open>stop_signal\<close>) and the \<^verbatim>\<open>networks\<close> attribute of the spec's data model. In
  \<^verbatim>\<open>container.py\<close> an entry of \<^verbatim>\<open>uses\<close> is a plain name: it is the key of a dictionary
  lookup and is joined into an error message. The attribute \<^verbatim>\<open>exec_commands\<close> is called
  \<open>exec_commands_attr\<close> here, the name \<open>exec_commands\<close> being the runner's method;
  \<^verbatim>\<open>None\<close> there is a missing list.
\<close>

record bind =
  volume :: string
  readonly :: bool

record link =
  container :: string
  link_alias :: "string option"

record exec_command =
  cmd :: string
  user :: "string option"

record container_assignment =
  instances :: "string list"
  shares :: "string list"
  binds :: "bind list"
  uses :: "string list"
  attaches :: "string list"
  links_to :: "link list"
  networks :: "string list"
  exec_commands_attr :: "exec_command list option"
  stop_signal :: stop_sig

text \<open>
  Modelled from the spec: \<^verbatim>\<open>ContainerAssignment()\<close> with no argument, every attribute
  empty.
\<close>

definition ContainerAssignment_init :: container_assignment where
  "ContainerAssignment_init =
     \<lparr>instances = [], shares = [], binds = [], uses = [], attaches = [], links_to = [],
      networks = [], exec_commands_attr = Some [], stop_signal = SigNone\<rparr>"

text \<open>
  \<^verbatim>\<open>ContainerMap\<close>: the attributes \<^verbatim>\<open>_name\<close>, \<^verbatim>\<open>_host\<close>, \<^verbatim>\<open>_volumes\<close> and \<^verbatim>\<open>_map\<close>.
  Each dictionary is an association list in iteration order; \<^verbatim>\<open>for c_name, c_assignment
  in self\<close> runs over \<open>m_map\<close>.
\<close>

record container_map =
  m_name :: string
  m_host :: "(string \<times> string) list"
  m_volumes :: "(string \<times> string) list"
  m_map :: "(string \<times> container_assignment) list"

text \<open>What \<^verbatim>\<open>get\<close> and \<^verbatim>\<open>get_existing\<close> hand out.\<close>

datatype map_entry =
  Host "(string \<times> string) list"
| Volumes "(string \<times> string) list"
| Container container_assignment

section \<open>Names and lookup\<close>

definition cname :: "container_map \<Rightarrow> string \<Rightarrow> string option \<Rightarrow> string" where
  "cname m c inst =
     (case inst of
        Some i \<Rightarrow>
          (if i \<noteq> [] then join ''.'' [m_name m, c, i] else join ''.'' [m_name m, c])
      | None \<Rightarrow> join ''.'' [m_name m, c])"

text \<open>
  Modelled from the spec: \<^verbatim>\<open>DictMap.get\<close> of \<^verbatim>\<open>dockermap.map\<close> is not among the
  sources. On the \<^verbatim>\<open>defaultdict\<close> \<^verbatim>\<open>_map\<close> it returns the assignment stored under the
  name and, when there is none, stores and returns an initial one.
\<close>

definition DictMap_get :: "container_map \<Rightarrow> string \<Rightarrow> container_assignment \<times> container_map" where
  "DictMap_get m item =
     (case map_of (m_map m) item of
        Some a \<Rightarrow> (a, m)
      | None \<Rightarrow> (ContainerAssignment_init,
                 m\<lparr>m_map := m_map m @ [(item, ContainerAssignment_init)]\<rparr>))"

definition get :: "container_map \<Rightarrow> string \<Rightarrow> map_entry \<times> container_map" where
  "get m item =
     (if item = ''host'' then (Host (m_host m), m)
      else if item = ''volumes'' then (Volumes (m_volumes m), m)
      else (case DictMap_get m item of (a, m') \<Rightarrow> (Container a, m')))"

text \<open>
  \<^verbatim>\<open>get_existing\<close> returns a value and leaves the map as it is; the map is returned
  too, so that this is a statement and not a convention. \<^verbatim>\<open>None\<close> is \<open>None\<close>.
\<close>

definition get_existing :: "container_map \<Rightarrow> string \<Rightarrow> map_entry option \<times> container_map" where
  "get_existing m item =
     (if item = ''host'' then (Some (Host (m_host m)), m)
      else if item = ''volumes'' then (Some (Volumes (m_volumes m)), m)
      else (map_option Container (map_of (m_map m) item), m))"

section \<open>Dependency items\<close>

text \<open>
  \<^verbatim>\<open>attached = dict((attaches, c_name) for c_name, c_assignment in self for attaches in
  c_assignment.attaches)\<close>: a dictionary built from pairs keeps, for a key given twice,
  the pair given last; \<open>map_of\<close> returns the first, so it reads the pairs reversed.
\<close>

definition attached_pairs :: "container_map \<Rightarrow> (string \<times> string) list" where
  "attached_pairs m =
     concat (map (\<lambda>(c_name, c_assignment). map (\<lambda>a. (a, c_name)) (attaches c_assignment))
       (m_map m))"

definition attached :: "container_map \<Rightarrow> string \<Rightarrow> string option" where
  "attached m = map_of (rev (attached_pairs m))"

text \<open>\<^verbatim>\<open>attached.get(u, u)\<close>.\<close>

definition attached_get :: "container_map \<Rightarrow> string \<Rightarrow> string" where
  "attached_get m u = (case attached m u of Some c_name \<Rightarrow> c_name | None \<Rightarrow> u)"

definition dep_set :: "container_map \<Rightarrow> container_assignment \<Rightarrow> string set" where
  "dep_set m c_assignment =
     attached_get m ` set (uses c_assignment) \<union> container ` set (links_to c_assignment)"

text \<open>The generator, as the list of the pairs it yields, in order.\<close>

definition dependency_items :: "container_map \<Rightarrow> (string \<times> string set) list" where
  "dependency_items m =
     concat (map (\<lambda>(c_name, c_assignment).
         map (\<lambda>i. (join ''.'' [c_name, i], dep_set m c_assignment)) (instances c_assignment)
         @ [(c_name, dep_set m c_assignment)])
       (m_map m))"

section \<open>The integrity check\<close>

text \<open>
  Every error of \<^verbatim>\<open>check_integrity\<close> is a \<^verbatim>\<open>ValueError\<close>. Five carry a message with
  the names found, which are taken from a set or a counter and so come in no fixed order:
  the message is modelled by its kind and the set of names. The sixth is the \<^verbatim>\<open>ValueError\<close>
  of unpacking an empty sequence into six variables. A \<^verbatim>\<open>TypeError\<close> is what a call
  raises when a keyword argument has the name of a parameter that is bound already
  (\<^verbatim>\<open>got multiple values for argument\<close>); it carries the keywords in question, of which
  the message names one.
\<close>

datatype error_message =
  NotEnoughValuesToUnpack
| DuplicatedSharedOrAttached "string set"
| NoSharedOrAttachedForUsed "string set"
| NoHostShareForMapped "string set"
| NoVolumePathAssignment "string set"
| NoContainerInstanceForLink "string set"

datatype error = ValueError error_message | TypeError "string list"

definition get_instance_names :: "string \<Rightarrow> string list \<Rightarrow> string list" where
  "get_instance_names c_name insts =
     (if insts \<noteq> [] then map (\<lambda>i. join ''.'' [c_name, i]) insts else [c_name])"

type_synonym container_items =
  "string list \<times> string list \<times> string list \<times> string list \<times> string list \<times> string list"

definition get_container_items :: "string \<Rightarrow> container_assignment \<Rightarrow> container_items" where
  "get_container_items c_name c =
     (let instance_names = get_instance_names c_name (instances c);
          shared = (if shares c \<noteq> [] \<or> binds c \<noteq> [] then instance_names else []);
          bind = map volume (binds c);
          link = map container (links_to c)
      in (instance_names, uses c, attaches c, shared, bind, link))"

text \<open>
  \<^verbatim>\<open>a, b, c, d, e, f = zip(*rows)\<close>: the six columns of the rows; with no row,
  \<^verbatim>\<open>zip\<close> gives nothing and the unpacking raises \<^verbatim>\<open>ValueError\<close>.
\<close>

definition unzip_items ::
  "container_items list \<Rightarrow>
   error + (string list list \<times> string list list \<times> string list list \<times> string list list
            \<times> string list list \<times> string list list)" where
  "unzip_items rows =
     (if rows = [] then Inl (ValueError NotEnoughValuesToUnpack)
      else Inr (map (\<lambda>(a, b, c, d, e, f). a) rows, map (\<lambda>(a, b, c, d, e, f). b) rows,
                map (\<lambda>(a, b, c, d, e, f). c) rows, map (\<lambda>(a, b, c, d, e, f). d) rows,
                map (\<lambda>(a, b, c, d, e, f). e) rows, map (\<lambda>(a, b, c, d, e, f). f) rows))"

definition check_integrity :: "bool \<Rightarrow> container_map \<Rightarrow> error + unit" where
  "check_integrity check_duplicates m =
     (case unzip_items (map (\<lambda>(k, v). get_container_items k v) (m_map m)) of
        Inl e \<Rightarrow> Inl e
      | Inr (all_instances, all_used, all_attached, all_shared, all_binds, all_links) \<Rightarrow>
          (let volume_shared = concat (all_shared @ all_attached);
               duplicated = set (filter (\<lambda>name. 1 < count_list volume_shared name) volume_shared);
               used_set = set (concat all_used);
               shared_set = set volume_shared;
               missing_shares = used_set - shared_set;
               binds_set = set (concat all_binds);
               host_set = set (map fst (m_host m));
               missing_binds = binds_set - host_set;
               volume_set = binds_set \<union> set (concat all_attached);
               named_set = set (map fst (m_volumes m));
               missing_names = volume_set - named_set;
               instance_set = set (concat all_instances);
               linked_set = set (concat all_links);
               missing_links = linked_set - instance_set
           in if check_duplicates \<and> duplicated \<noteq> {}
                then Inl (ValueError (DuplicatedSharedOrAttached duplicated))
              else if missing_shares \<noteq> {}
                then Inl (ValueError (NoSharedOrAttachedForUsed missing_shares))
              else if missing_binds \<noteq> {}
                then Inl (ValueError (NoHostShareForMapped missing_binds))
              else if missing_names \<noteq> {}
                then Inl (ValueError (NoVolumePathAssignment missing_names))
              else if missing_links \<noteq> {}
                then Inl (ValueError (NoContainerInstanceForLink missing_links))
              else Inr ()))"

subsection \<open>The five invariants, as the specification words them\<close>

definition is_shared_instance :: "container_map \<Rightarrow> string \<Rightarrow> bool" where
  "is_shared_instance m n =
     (\<exists>(c, a) \<in> set (m_map m).
        (shares a \<noteq> [] \<or> binds a \<noteq> []) \<and> n \<in> set (get_instance_names c (instances a)))"

definition is_attached_alias :: "container_map \<Rightarrow> string \<Rightarrow> bool" where
  "is_attached_alias m n = (\<exists>(c, a) \<in> set (m_map m). n \<in> set (attaches a))"

definition is_container_instance :: "container_map \<Rightarrow> string \<Rightarrow> bool" where
  "is_container_instance m n =
     (\<exists>(c, a) \<in> set (m_map m). n \<in> set (get_instance_names c (instances a)))"

text \<open>
  The shared names of the map (the instance names of every container that shares or
  binds a volume) followed by its attached names, each as often as it is declared.
\<close>

definition shared_and_attached_names :: "container_map \<Rightarrow> string list" where
  "shared_and_attached_names m =
     concat (map (\<lambda>(c, a). if shares a \<noteq> [] \<or> binds a \<noteq> []
                            then get_instance_names c (instances a) else []) (m_map m))
     @ concat (map (\<lambda>(c, a). attaches a) (m_map m))"

definition names_unique :: "container_map \<Rightarrow> bool" where
  "names_unique m = distinct (shared_and_attached_names m)"

definition uses_resolve :: "container_map \<Rightarrow> bool" where
  "uses_resolve m =
     (\<forall>(c, a) \<in> set (m_map m). \<forall>u \<in> set (uses a).
        is_shared_instance m u \<or> is_attached_alias m u)"

definition binds_in_host :: "container_map \<Rightarrow> bool" where
  "binds_in_host m =
     (\<forall>(c, a) \<in> set (m_map m). \<forall>b \<in> set (binds a). volume b \<in> fst ` set (m_host m))"

definition aliases_in_volumes :: "container_map \<Rightarrow> bool" where
  "aliases_in_volumes m =
     (\<forall>(c, a) \<in> set (m_map m).
        (\<forall>x \<in> set (attaches a). x \<in> fst ` set (m_volumes m))
        \<and> (\<forall>b \<in> set (binds a). volume b \<in> fst ` set (m_volumes m)))"

definition links_resolve :: "container_map \<Rightarrow> bool" where
  "links_resolve m =
     (\<forall>(c, a) \<in> set (m_map m). \<forall>l \<in> set (links_to a). is_container_instance m (container l))"

definition integrity :: "container_map \<Rightarrow> bool" where
  "integrity m =
     (names_unique m \<and> uses_resolve m \<and> binds_in_host m \<and> aliases_in_volumes m
      \<and> links_resolve m)"

section \<open>Updating and constructing a map\<close>

text \<open>
  \<^verbatim>\<open>self.get(container).update(assignments)\<close>: the object that \<open>get\<close> hands out is
  updated in place. The three \<^verbatim>\<open>update\<close> methods (of \<^verbatim>\<open>HostVolumeAssignment\<close>, of the
  \<^verbatim>\<open>DictMap\<close> of volumes and of \<^verbatim>\<open>ContainerAssignment\<close>) are not among the sources and
  are the parameters \<open>hu\<close>, \<open>vu\<close> and \<open>au\<close>; \<open>'d\<close> is the type of the configuration
  data they read.
\<close>

definition update_entry ::
  "((string \<times> string) list \<Rightarrow> 'd \<Rightarrow> (string \<times> string) list) \<Rightarrow>
   ((string \<times> string) list \<Rightarrow> 'd \<Rightarrow> (string \<times> string) list) \<Rightarrow>
   (container_assignment \<Rightarrow> 'd \<Rightarrow> container_assignment) \<Rightarrow>
   container_map \<Rightarrow> string \<times> 'd \<Rightarrow> container_map" where
  "update_entry hu vu au m entry =
     (case entry of (c, assignments) \<Rightarrow>
        (case get m c of
           (Host h, m') \<Rightarrow> m'\<lparr>m_host := hu h assignments\<rparr>
         | (Volumes v, m') \<Rightarrow> m'\<lparr>m_volumes := vu v assignments\<rparr>
         | (Container a, m') \<Rightarrow>
             m'\<lparr>m_map := AList.update c (au a assignments) (m_map m')\<rparr>))"

text \<open>
  \<^verbatim>\<open>update(other=None, **kwargs)\<close>, its body: \<open>other\<close> is \<^verbatim>\<open>None\<close> or a dictionary,
  read in iteration order, then the keyword arguments (none of which is named \<^verbatim>\<open>self\<close>
  or \<^verbatim>\<open>other\<close> when the body runs).
\<close>

definition update ::
  "((string \<times> string) list \<Rightarrow> 'd \<Rightarrow> (string \<times> string) list) \<Rightarrow>
   ((string \<times> string) list \<Rightarrow> 'd \<Rightarrow> (string \<times> string) list) \<Rightarrow>
   (container_assignment \<Rightarrow> 'd \<Rightarrow> container_assignment) \<Rightarrow>
   container_map \<Rightarrow> (string \<times> 'd) list option \<Rightarrow> (string \<times> 'd) list \<Rightarrow> container_map" where
  "update hu vu au m other kwargs =
     foldl (update_entry hu vu au)
       (foldl (update_entry hu vu au) m (case other of None \<Rightarrow> [] | Some d \<Rightarrow> d))
       kwargs"

text \<open>
  Keyword arguments are collected into \<^verbatim>\<open>**kwargs\<close> only under names that are not
  parameters of the function called: a keyword with the name of a parameter that the call
  binds already makes the call raise \<^verbatim>\<open>TypeError\<close> before the body runs.
  \<open>clashing_keywords\<close> lists the keywords of that kind.
\<close>

definition clashing_keywords :: "string list \<Rightarrow> (string \<times> 'd) list \<Rightarrow> string list" where
  "clashing_keywords params kwargs = filter (\<lambda>k. k \<in> set params) (map fst kwargs)"

text \<open>
  The constructor, called with the name, the initial data and the flag bound to their
  parameters and \<open>kwargs\<close> as further keywords. A keyword named like a parameter of
  \<^verbatim>\<open>__init__\<close> makes that call raise. In the body, \<^verbatim>\<open>self.update(initial, **kwargs)\<close>
  binds \<open>initial\<close> to the parameter \<^verbatim>\<open>other\<close> of \<^verbatim>\<open>update\<close>, so a keyword \<^verbatim>\<open>other\<close>
  makes this call raise, before anything is updated or checked. Then
  \<^verbatim>\<open>(initial or kwargs) and check_integrity\<close>: \<^verbatim>\<open>None\<close> and an empty dictionary are false.
  The constructor returns the map, or the error raised.
\<close>

definition ContainerMap_init ::
  "((string \<times> string) list \<Rightarrow> 'd \<Rightarrow> (string \<times> string) list) \<Rightarrow>
   ((string \<times> string) list \<Rightarrow> 'd \<Rightarrow> (string \<times> string) list) \<Rightarrow>
   (container_assignment \<Rightarrow> 'd \<Rightarrow> container_assignment) \<Rightarrow>
   string \<Rightarrow> (string \<times> 'd) list option \<Rightarrow> bool \<Rightarrow> (string \<times> 'd) list \<Rightarrow>
   error + container_map" where
  "ContainerMap_init hu vu au name initial check kwargs =
     (if clashing_keywords [''self'', ''name'', ''initial'', ''check_integrity''] kwargs \<noteq> []
      then Inl (TypeError
             (clashing_keywords [''self'', ''name'', ''initial'', ''check_integrity''] kwargs))
      else if clashing_keywords [''self'', ''other''] kwargs \<noteq> []
      then Inl (TypeError (clashing_keywords [''self'', ''other''] kwargs))
      else (let m = update hu vu au \<lparr>m_name = name, m_host = [], m_volumes = [], m_map = []\<rparr>
                      initial kwargs
            in if ((case initial of None \<Rightarrow> False | Some d \<Rightarrow> d \<noteq> []) \<or> kwargs \<noteq> [])
                  \<and> check
               then (case check_integrity True m of Inl e \<Rightarrow> Inl e | Inr u \<Rightarrow> Inr m)
               else Inr m))"

text \<open>
  The keywords that make a constructor call raise \<^verbatim>\<open>TypeError\<close>, at either of the two
  calls.
\<close>

definition rejected_keywords :: "(string \<times> 'd) list \<Rightarrow> string list" where
  "rejected_keywords kwargs =
     clashing_keywords [''self'', ''name'', ''initial'', ''check_integrity''] kwargs
     @ clashing_keywords [''self'', ''other''] kwargs"

section \<open>Merging dependencies\<close>

text \<open>
  \<^verbatim>\<open>dep.extend(set(parent_dep).difference(dep))\<close> appends the elements of a set, in the
  order in which Python iterates over that set. The language does not fix this order (it
  follows the hash values and the history of the set), so it is the parameter \<open>iter\<close> of
  the model: \<open>iter parent_dep dep\<close> lists the set in iteration order. \<open>set_iteration\<close>
  says what every such order has in common: it lists the elements of \<open>parent_dep\<close> that
  are not in \<open>dep\<close>, each once.
\<close>

definition set_iteration :: "('a list \<Rightarrow> 'a list \<Rightarrow> 'a list) \<Rightarrow> bool" where
  "set_iteration iter =
     (\<forall>parent_dep dep. distinct (iter parent_dep dep)
        \<and> set (iter parent_dep dep) = set parent_dep - set dep)"

text \<open>
  The loop \<^verbatim>\<open>for parent in parents\<close> over the list \<open>dep\<close> under construction.
  \<open>resolve_parent\<close> returns a list or \<^verbatim>\<open>None\<close>; \<^verbatim>\<open>if parent_dep:\<close> skips \<^verbatim>\<open>None\<close> and
  the empty list alike.
\<close>

fun merge_loop ::
  "('a list \<Rightarrow> 'a list \<Rightarrow> 'a list) \<Rightarrow> ('a \<Rightarrow> 'a list option) \<Rightarrow> 'a list \<Rightarrow> 'a list \<Rightarrow> 'a list" where
  "merge_loop iter resolve_parent [] dep = dep"
| "merge_loop iter resolve_parent (parent # parents) dep =
     (case resolve_parent parent of
        None \<Rightarrow> merge_loop iter resolve_parent parents dep
      | Some parent_dep \<Rightarrow>
          (if parent_dep \<noteq> []
           then merge_loop iter resolve_parent parents (dep @ iter parent_dep dep)
           else merge_loop iter resolve_parent parents dep))"

text \<open>
  \<^verbatim>\<open>dep = list(parents)\<close>, then the loop. \<open>parents\<close> is the sequence in which the
  iterable hands out the parents; \<open>item\<close> is not read.
\<close>

definition merge_dependency ::
  "('a list \<Rightarrow> 'a list \<Rightarrow> 'a list) \<Rightarrow> 'a \<Rightarrow> ('a \<Rightarrow> 'a list option) \<Rightarrow> 'a list \<Rightarrow> 'a list" where
  "merge_dependency iter item resolve_parent parents =
     merge_loop iter resolve_parent parents parents"

text \<open>
  Two iteration orders. \<open>first_seen\<close> keeps the order of the list the set was built
  from (the first occurrence of every element), which is the order the specification
  describes; \<open>last_seen_first\<close> is the opposite order.
\<close>

definition first_seen :: "'a list \<Rightarrow> 'a list \<Rightarrow> 'a list" where
  "first_seen parent_dep dep = rev (remdups (rev (filter (\<lambda>x. x \<notin> set dep) parent_dep)))"

definition last_seen_first :: "'a list \<Rightarrow> 'a list \<Rightarrow> 'a list" where
  "last_seen_first parent_dep dep = remdups (rev (filter (\<lambda>x. x \<notin> set dep) parent_dep))"

text \<open>What \<^verbatim>\<open>resolve_parent\<close> contributes for a parent: nothing for \<^verbatim>\<open>None\<close>.\<close>

definition resolved :: "('a \<Rightarrow> 'a list option) \<Rightarrow> 'a \<Rightarrow> 'a list" where
  "resolved resolve_parent parent = (case resolve_parent parent of None \<Rightarrow> [] | Some d \<Rightarrow> d)"

text \<open>A resolver for the examples below.\<close>

definition example_resolve :: "string \<Rightarrow> string list option" where
  "example_resolve parent =
     (if parent = ''redis'' then Some [''base'', ''data'']
      else if parent = ''svc'' then Some [''data'', ''base'', ''net'']
      else None)"

section \<open>The runner: stopping a container and running commands in it\<close>

text \<open>
  The daemon client is outside the program. A call to it is recorded in \<open>calls\<close>, and
  its outcome is what the function \<open>respond\<close> gives for the calls made so far and the
  call at hand: a returned value, or an exception. Keyword arguments are association
  lists. The methods \<^verbatim>\<open>get_stop_kwargs\<close>, \<^verbatim>\<open>get_exec_create_kwargs\<close> and
  \<^verbatim>\<open>get_exec_start_kwargs\<close> of the runner are not among the sources and are parameters
  of the functions that call them.
\<close>

type_synonym kwargs = "(string \<times> pyval) list"

datatype call =
  Stop kwargs
| Kill string stop_sig
| Wait string pyval
| ExecCreate kwargs
| ExecStart kwargs

text \<open>
  The exceptions that can leave the two mixins: \<^verbatim>\<open>requests.exceptions.Timeout\<close>, the
  \<^verbatim>\<open>KeyError\<close> of \<^verbatim>\<open>create_result['Id']\<close>, and any other exception of the client.
\<close>

datatype runner_error = Timeout | KeyError string | APIError string

datatype response = Returned "kwargs option" | Raised runner_error

text \<open>The records written to the log, by level and message.\<close>

datatype log_record =
  DebugCreatingExec string "string option" string
| DebugStartingExec pyval
| DebugAssumingStarted
| WarningDidNotStop
| DebugSendingSignal stop_sig string

record world =
  calls :: "call list"
  log_records :: "log_record list"

text \<open>
  Modelled from the spec: \<^verbatim>\<open>ActionConfig\<close> of \<^verbatim>\<open>dockermap.map.runner\<close> is not among the
  sources. Of its attributes the mixins read \<^verbatim>\<open>config\<close>, the container assignment, and
  \<^verbatim>\<open>client\<close>, which is the pair of \<open>respond\<close> and the \<open>world\<close> here.
\<close>

record action_config =
  config :: container_assignment

definition client_call :: "(call list \<Rightarrow> call \<Rightarrow> response) \<Rightarrow> call \<Rightarrow> world \<Rightarrow> response \<times> world" where
  "client_call respond c w = (respond (calls w) c, w\<lparr>calls := calls w @ [c]\<rparr>)"

definition log_add :: "log_record \<Rightarrow> world \<Rightarrow> world" where
  "log_add r w = w\<lparr>log_records := log_records w @ [r]\<rparr>"

text \<open>\<^verbatim>\<open>signal.SIGTERM\<close>, which is 15 on every POSIX platform.\<close>

definition SIGTERM :: int where
  "SIGTERM = 15"

text \<open>\<^verbatim>\<open>not sig\<close>: \<^verbatim>\<open>None\<close>, the empty string and the number zero are false.\<close>

definition falsy_sig :: "stop_sig \<Rightarrow> bool" where
  "falsy_sig sig = (case sig of SigNone \<Rightarrow> True | SigName n \<Rightarrow> n = [] | SigNum k \<Rightarrow> k = 0)"

text \<open>\<^verbatim>\<open>d.get(k, dflt)\<close>.\<close>

definition dict_get :: "kwargs \<Rightarrow> string \<Rightarrow> pyval \<Rightarrow> pyval" where
  "dict_get d k dflt = (case map_of d k of Some v \<Rightarrow> v | None \<Rightarrow> dflt)"

definition signal_stop ::
  "(call list \<Rightarrow> call \<Rightarrow> response) \<Rightarrow> (action_config \<Rightarrow> string \<Rightarrow> kwargs \<Rightarrow> kwargs) \<Rightarrow>
   action_config \<Rightarrow> string \<Rightarrow> kwargs \<Rightarrow> world \<Rightarrow> (runner_error + unit) \<times> world" where
  "signal_stop respond get_stop_kwargs action c_name kwargs w =
     (let sig = stop_signal (config action);
          stop_kwargs = get_stop_kwargs action c_name kwargs
      in if falsy_sig sig \<or> sig = SigName ''SIGTERM'' \<or> sig = SigNum SIGTERM
         then (case client_call respond (Stop stop_kwargs) w of
                 (Raised e, w') \<Rightarrow>
                   (if e = Timeout then (Inr (), log_add WarningDidNotStop w') else (Inl e, w'))
               | (Returned v, w') \<Rightarrow> (Inr (), w'))
         else (case client_call respond (Kill c_name sig) (log_add (DebugSendingSignal sig c_name) w) of
                 (Raised e, w') \<Rightarrow> (Inl e, w')
               | (Returned v, w') \<Rightarrow>
                   (case client_call respond
                           (Wait c_name (dict_get stop_kwargs ''timeout'' (PInt 10))) w' of
                      (Raised e, w'') \<Rightarrow> (Inl e, w'')
                    | (Returned v', w'') \<Rightarrow> (Inr (), w''))))"

text \<open>
  The loop over \<^verbatim>\<open>run_cmds\<close>. A create result is false when it is \<^verbatim>\<open>None\<close> or an empty
  dictionary.
\<close>

fun exec_commands ::
  "(call list \<Rightarrow> call \<Rightarrow> response) \<Rightarrow>
   (action_config \<Rightarrow> string \<Rightarrow> string \<Rightarrow> string option \<Rightarrow> kwargs) \<Rightarrow>
   (action_config \<Rightarrow> string \<Rightarrow> pyval \<Rightarrow> kwargs) \<Rightarrow>
   action_config \<Rightarrow> string \<Rightarrow> exec_command list \<Rightarrow> world \<Rightarrow> (runner_error + unit) \<times> world" where
  "exec_commands respond get_exec_create_kwargs get_exec_start_kwargs action c_name [] w =
     (Inr (), w)"
| "exec_commands respond get_exec_create_kwargs get_exec_start_kwargs action c_name
     (run_cmd # run_cmds) w =
     (case client_call respond
             (ExecCreate (get_exec_create_kwargs action c_name (cmd run_cmd) (user run_cmd)))
             (log_add (DebugCreatingExec c_name (user run_cmd) (cmd run_cmd)) w) of
        (Raised e, w') \<Rightarrow> (Inl e, w')
      | (Returned None, w') \<Rightarrow>
          exec_commands respond get_exec_create_kwargs get_exec_start_kwargs action c_name
            run_cmds (log_add DebugAssumingStarted w')
      | (Returned (Some create_result), w') \<Rightarrow>
          (if create_result \<noteq> []
           then (case map_of create_result ''Id'' of
                   None \<Rightarrow> (Inl (KeyError ''Id''), w')
                 | Some e_id \<Rightarrow>
                     (case client_call respond
                             (ExecStart (get_exec_start_kwargs action c_name e_id))
                             (log_add (DebugStartingExec e_id) w') of
                        (Raised e, w'') \<Rightarrow> (Inl e, w'')
                      | (Returned v, w'') \<Rightarrow>
                          exec_commands respond get_exec_create_kwargs get_exec_start_kwargs
                            action c_name run_cmds w''))
           else exec_commands respond get_exec_create_kwargs get_exec_start_kwargs action c_name
                  run_cmds (log_add DebugAssumingStarted w')))"

definition exec_container_commands ::
  "(call list \<Rightarrow> call \<Rightarrow> response) \<Rightarrow>
   (action_config \<Rightarrow> string \<Rightarrow> string \<Rightarrow> string option \<Rightarrow> kwargs) \<Rightarrow>
   (action_config \<Rightarrow> string \<Rightarrow> pyval \<Rightarrow> kwargs) \<Rightarrow>
   action_config \<Rightarrow> string \<Rightarrow> world \<Rightarrow> (runner_error + unit) \<times> world" where
  "exec_container_commands respond get_exec_create_kwargs get_exec_start_kwargs action c_name w =
     (case exec_commands_attr (config action) of
        None \<Rightarrow> (Inr (), w)
      | Some config_cmds \<Rightarrow>
          (if config_cmds = [] then (Inr (), w)
           else exec_commands respond get_exec_create_kwargs get_exec_start_kwargs action c_name
                  config_cmds w))"

subsection \<open>The behaviour the specification describes\<close>

text \<open>
  The stop signals for which the specification asks for a plain stop: none configured
  (\<^verbatim>\<open>None\<close>, or an empty value: the empty string or zero), the name \<^verbatim>\<open>SIGTERM\<close>, or the
  number of that signal.
\<close>

definition absent_or_sigterm :: "stop_sig \<Rightarrow> bool" where
  "absent_or_sigterm sig =
     (sig = SigNone \<or> sig = SigName [] \<or> sig = SigNum 0
      \<or> sig = SigName ''SIGTERM'' \<or> sig = SigNum 15)"







subsection \<open>An example client\<close>

definition example_stop_kwargs :: "action_config \<Rightarrow> string \<Rightarrow> kwargs \<Rightarrow> kwargs" where
  "example_stop_kwargs action c_name kwargs = (''container'', PStr c_name) # kwargs"

definition example_exec_create_kwargs ::
  "action_config \<Rightarrow> string \<Rightarrow> string \<Rightarrow> string option \<Rightarrow> kwargs" where
  "example_exec_create_kwargs action c_name c u =
     [(''container'', PStr c_name), (''cmd'', PStr c),
      (''user'', case u of None \<Rightarrow> PNone | Some n \<Rightarrow> PStr n)]"

definition example_exec_start_kwargs :: "action_config \<Rightarrow> string \<Rightarrow> pyval \<Rightarrow> kwargs" where
  "example_exec_start_kwargs action c_name e_id = [(''exec_id'', e_id)]"

definition example_client :: "call list \<Rightarrow> call \<Rightarrow> response" where
  "example_client history c =
     (case c of
        ExecCreate k \<Rightarrow>
          (if map_of k ''cmd'' = Some (PStr ''/opt/init'')
           then Returned (Some [(''Id'', PStr ''e1'')])
           else if map_of k ''cmd'' = Some (PStr ''/opt/prepare'')
           then Returned (Some [])
           else Returned None)
      | Stop k \<Rightarrow> Raised Timeout
      | _ \<Rightarrow> Returned None)"


section \<open>An example map\<close>

text \<open>
  A container \<open>redis\<close> with two instances and an attached volume, and a container
  \<open>server\<close> that uses the volume and links to one instance.
\<close>

definition example_redis :: container_assignment where
  "example_redis = ContainerAssignment_init\<lparr>instances := [''cache'', ''queue''], attaches := [''redis_socket'']\<rparr>"

definition example_server :: container_assignment where
  "example_server = ContainerAssignment_init
     \<lparr>uses := [''redis_socket''], links_to := [\<lparr>container = ''redis.cache'', link_alias = None\<rparr>]\<rparr>"

definition example_map :: container_map where
  "example_map = \<lparr>m_name = ''main'', m_host = [], m_volumes = [(''redis_socket'', ''/var/run/redis'')],
     m_map = [(''redis'', example_redis), (''server'', example_server)]\<rparr>"

section \<open>Properties of names and lookup\<close>

text \<open>
  C8. The daemon name of a container is the map name, the container name and, when an
  instance is given, the instance name, with one dot between neighbours:
  \<open>map.container.instance\<close> with an instance, \<open>map.container\<close> without. An instance
  is given when the argument is a non-empty string; \<^verbatim>\<open>None\<close> (the default) and the empty
  string are no instance.
\<close>

theorem cname_format:
  "(i \<noteq> [] \<longrightarrow> cname m c (Some i) = m_name m @ ''.'' @ c @ ''.'' @ i)
   \<and> cname m c None = m_name m @ ''.'' @ c
   \<and> cname m c (Some []) = m_name m @ ''.'' @ c"
  by (simp add: cname_def)

theorem cname_format_witness:
  "cname \<lparr>m_name = ''main'', m_host = [], m_volumes = [], m_map = []\<rparr> ''redis'' (Some ''cache'')
     = ''main.redis.cache''
   \<and> cname \<lparr>m_name = ''main'', m_host = [], m_volumes = [], m_map = []\<rparr> ''redis'' None
     = ''main.redis''"
  using cname_format [of "''cache''" "\<lparr>m_name = ''main'', m_host = [], m_volumes = [], m_map = []\<rparr>" "''redis''"]
  by simp

text \<open>
  C9. Whatever container assignments a map holds, \<open>get\<close> and \<open>get_existing\<close> answer
  the name \<open>host\<close> with the host-volume assignment and the name \<open>volumes\<close> with the
  volume alias map, never with a container assignment, and neither call changes the map
  there; \<open>get_existing\<close> answers any other name that has no assignment with \<^verbatim>\<open>None\<close> and
  creates nothing.
\<close>

theorem reserved_names_and_get_existing:
  "get m ''host'' = (Host (m_host m), m)
   \<and> get m ''volumes'' = (Volumes (m_volumes m), m)
   \<and> get_existing m ''host'' = (Some (Host (m_host m)), m)
   \<and> get_existing m ''volumes'' = (Some (Volumes (m_volumes m)), m)
   \<and> (item \<noteq> ''host'' \<and> item \<noteq> ''volumes'' \<and> item \<notin> fst ` set (m_map m)
        \<longrightarrow> get_existing m item = (None, m))"
  by (simp add: get_def get_existing_def map_of_eq_None_iff)

theorem reserved_names_and_get_existing_witness:
  "get \<lparr>m_name = ''main'', m_host = [(''root'', ''/var'')], m_volumes = [],
        m_map = [(''host'', ContainerAssignment_init)]\<rparr> ''host''
     = (Host [(''root'', ''/var'')],
        \<lparr>m_name = ''main'', m_host = [(''root'', ''/var'')], m_volumes = [],
         m_map = [(''host'', ContainerAssignment_init)]\<rparr>)
   \<and> get_existing \<lparr>m_name = ''main'', m_host = [(''root'', ''/var'')], m_volumes = [],
        m_map = [(''host'', ContainerAssignment_init)]\<rparr> ''web''
     = (None,
        \<lparr>m_name = ''main'', m_host = [(''root'', ''/var'')], m_volumes = [],
         m_map = [(''host'', ContainerAssignment_init)]\<rparr>)"
  using reserved_names_and_get_existing
    [of "\<lparr>m_name = ''main'', m_host = [(''root'', ''/var'')], m_volumes = [],
          m_map = [(''host'', ContainerAssignment_init)]\<rparr>" "''web''"]
  by simp

section \<open>Properties of the dependency items\<close>

lemma in_concat_map_prod:
  "n \<in> set (concat (map (\<lambda>(c, a). f c a) xs)) \<longleftrightarrow> (\<exists>(c, a) \<in> set xs. n \<in> set (f c a))"
  by (induction xs) auto

lemma map_fst_attached_pairs:
  "map fst (attached_pairs m) = concat (map (\<lambda>(c, a). attaches a) (m_map m))"
  unfolding attached_pairs_def
  by (simp add: map_concat comp_def case_prod_unfold)

lemma in_attached_pairs:
  "(u, c) \<in> set (attached_pairs m) \<longleftrightarrow> (\<exists>a. (c, a) \<in> set (m_map m) \<and> u \<in> set (attaches a))"
  unfolding attached_pairs_def in_concat_map_prod by auto

lemma attached_None_iff: "attached m u = None \<longleftrightarrow> \<not> is_attached_alias m u"
proof -
  have "attached m u = None \<longleftrightarrow> u \<notin> set (map fst (attached_pairs m))"
    unfolding attached_def map_of_eq_None_iff by (simp add: image_iff)
  then show ?thesis
    unfolding map_fst_attached_pairs in_concat_map_prod is_attached_alias_def by simp
qed

lemma attached_SomeD:
  "attached m u = Some c \<Longrightarrow> \<exists>a. (c, a) \<in> set (m_map m) \<and> u \<in> set (attaches a)"
  unfolding attached_def using in_attached_pairs [of u c m] by (auto dest: map_of_SomeD)

lemma attached_unique:
  assumes "distinct (concat (map (\<lambda>(c, a). attaches a) (m_map m)))"
    and "(c, a) \<in> set (m_map m)" and "u \<in> set (attaches a)"
  shows "attached m u = Some c"
proof -
  have "distinct (map fst (rev (attached_pairs m)))"
    using assms(1) by (simp add: rev_map [symmetric] map_fst_attached_pairs)
  moreover have "(u, c) \<in> set (rev (attached_pairs m))"
    using assms(2,3) in_attached_pairs [of u c m] by auto
  ultimately show ?thesis unfolding attached_def by (rule map_of_is_SomeI)
qed

lemmas example_defs = example_map_def example_redis_def example_server_def ContainerAssignment_init_def


text \<open>
  C1 (as amended). The generator yields, for every container of the map in iteration
  order, one node \<open>c_name.instance\<close> per instance and then the node \<open>c_name\<close>, each
  with the same set of direct dependencies: every entry of \<open>uses\<close>, an attached-volume
  name among them replaced by the name of the container that attaches it and any other
  entry kept, together with the container side of every entry of \<open>links_to\<close>. Networks
  are no part of the set. When every attached name is attached once in the map, the
  replacing name is the one container that attaches it.
\<close>

theorem dependency_items_nodes_and_deps:
  "dependency_items m =
     concat (map (\<lambda>(c, a).
         map (\<lambda>n. (n, attached_get m ` set (uses a) \<union> container ` set (links_to a)))
           (map (\<lambda>i. c @ ''.'' @ i) (instances a) @ [c]))
       (m_map m))
   \<and> (\<not> is_attached_alias m u \<longrightarrow> attached_get m u = u)
   \<and> (is_attached_alias m u \<longrightarrow>
        (\<exists>a. (attached_get m u, a) \<in> set (m_map m) \<and> u \<in> set (attaches a)))
   \<and> (distinct (concat (map (\<lambda>(c, a). attaches a) (m_map m)))
        \<and> (c, a) \<in> set (m_map m) \<and> u \<in> set (attaches a) \<longrightarrow> attached_get m u = c)"
proof (intro conjI impI)
  show "dependency_items m =
     concat (map (\<lambda>(c, a).
         map (\<lambda>n. (n, attached_get m ` set (uses a) \<union> container ` set (links_to a)))
           (map (\<lambda>i. c @ ''.'' @ i) (instances a) @ [c]))
       (m_map m))"
    by (simp add: dependency_items_def dep_set_def comp_def)
next
  assume "\<not> is_attached_alias m u"
  then show "attached_get m u = u"
    by (simp add: attached_get_def attached_None_iff [symmetric])
next
  assume "is_attached_alias m u"
  then obtain c where "attached m u = Some c"
    using attached_None_iff [of m u] by auto
  then show "\<exists>a. (attached_get m u, a) \<in> set (m_map m) \<and> u \<in> set (attaches a)"
    using attached_SomeD [of m u c] by (simp add: attached_get_def)
next
  assume "distinct (concat (map (\<lambda>(c, a). attaches a) (m_map m)))
        \<and> (c, a) \<in> set (m_map m) \<and> u \<in> set (attaches a)"
  then show "attached_get m u = c"
    using attached_unique [of m c a u] by (simp add: attached_get_def)
qed


theorem dependency_items_nodes_and_deps_witness:
  "dependency_items example_map =
     [(''redis.cache'', {}), (''redis.queue'', {}), (''redis'', {}),
      (''server'', {''redis.cache'', ''redis''})]
   \<and> attached_get example_map ''redis_socket'' = ''redis''
   \<and> attached_get example_map ''redis.cache'' = ''redis.cache''"
proof -
  have a: "is_attached_alias example_map ''redis_socket''"
    by (simp add: is_attached_alias_def example_defs)
  have b: "\<not> is_attached_alias example_map ''redis.cache''"
    by (simp add: is_attached_alias_def example_defs)
  have c: "distinct (concat (map (\<lambda>(c, a). attaches a) (m_map example_map)))
        \<and> (''redis'', example_redis) \<in> set (m_map example_map)
        \<and> ''redis_socket'' \<in> set (attaches example_redis)"
    by (simp add: example_defs)
  have o: "attached_get example_map ''redis_socket'' = ''redis''"
    using dependency_items_nodes_and_deps [of example_map "''redis_socket''" "''redis''" example_redis] c
    by blast
  have s: "attached_get example_map ''redis.cache'' = ''redis.cache''"
    using dependency_items_nodes_and_deps [of example_map "''redis.cache''"] b by blast
  have "dependency_items example_map =
     concat (map (\<lambda>(c, a).
         map (\<lambda>n. (n, attached_get example_map ` set (uses a) \<union> container ` set (links_to a)))
           (map (\<lambda>i. c @ ''.'' @ i) (instances a) @ [c]))
       (m_map example_map))"
    using dependency_items_nodes_and_deps [of example_map] by blast
  also have "\<dots> = [(''redis.cache'', {}), (''redis.queue'', {}), (''redis'', {}),
      (''server'', {''redis.cache'', ''redis''})]"
    using o by (simp add: example_defs)
  finally show ?thesis using o s by simp
qed


text \<open>
  The claim as stated, with the networks of the container among its direct dependencies,
  fails on a container that is attached to one network and uses and links nothing: its
  dependency set is empty.
\<close>

theorem dependency_items_omits_networks:
  "dependency_items \<lparr>m_name = ''main'', m_host = [], m_volumes = [],
      m_map = [(''web'', ContainerAssignment_init\<lparr>networks := [''backend'']\<rparr>)]\<rparr>
     = [(''web'', {})]
   \<and> networks (ContainerAssignment_init\<lparr>networks := [''backend'']\<rparr>) = [''backend'']"
  by (simp add: dependency_items_def dep_set_def ContainerAssignment_init_def)


section \<open>Properties of the integrity check\<close>

lemma in_shared_and_attached_names:
  "n \<in> set (shared_and_attached_names m) \<longleftrightarrow> is_shared_instance m n \<or> is_attached_alias m n"
proof -
  have s: "n \<in> set (concat (map (\<lambda>(c, a). if shares a \<noteq> [] \<or> binds a \<noteq> []
                            then get_instance_names c (instances a) else []) (m_map m)))
            \<longleftrightarrow> is_shared_instance m n"
    unfolding is_shared_instance_def in_concat_map_prod
    by (intro bex_cong refl) (simp split: prod.splits)
  have a: "n \<in> set (concat (map (\<lambda>(c, a). attaches a) (m_map m))) \<longleftrightarrow> is_attached_alias m n"
    unfolding is_attached_alias_def in_concat_map_prod ..
  show ?thesis
    unfolding shared_and_attached_names_def set_append Un_iff s a ..
qed

lemma duplicated_empty_iff:
  "(set (filter (\<lambda>x. 1 < count_list xs x) xs) = {}) \<longleftrightarrow> distinct xs"
proof (induction xs)
  case Nil
  then show ?case by simp
next
  case (Cons a xs)
  have pos: "\<And>x. x \<in> set xs \<Longrightarrow> 0 < count_list xs x"
    by (metis count_list_0_iff gr0I)
  show ?case
  proof (cases "a \<in> set xs")
    case True
    then show ?thesis using pos [of a] by (auto simp: filter_empty_conv)
  next
    case False
    have "filter (\<lambda>x. 1 < count_list (a # xs) x) xs = filter (\<lambda>x. 1 < count_list xs x) xs"
      using False by (intro filter_cong) auto
    then show ?thesis using False Cons.IH by (auto simp: filter_empty_conv)
  qed
qed

lemma unzip_items_rows:
  "rows \<noteq> [] \<Longrightarrow> unzip_items (map (\<lambda>(k, v). get_container_items k v) rows) =
     Inr (map (\<lambda>(k, v). get_instance_names k (instances v)) rows,
          map (\<lambda>(k, v). uses v) rows,
          map (\<lambda>(k, v). attaches v) rows,
          map (\<lambda>(k, v). if shares v \<noteq> [] \<or> binds v \<noteq> [] then get_instance_names k (instances v) else []) rows,
          map (\<lambda>(k, v). map volume (binds v)) rows,
          map (\<lambda>(k, v). map container (links_to v)) rows)"
  by (simp add: unzip_items_def get_container_items_def Let_def case_prod_beta comp_def)

lemma missing_shares_empty_iff:
  "set (concat (map (\<lambda>(k, v). uses v) (m_map m))) - set (shared_and_attached_names m) = {}
     \<longleftrightarrow> uses_resolve m"
  unfolding uses_resolve_def Diff_eq_empty_iff subset_iff in_concat_map_prod
    in_shared_and_attached_names
  by blast

lemma missing_binds_empty_iff:
  "set (concat (map (\<lambda>(k, v). map volume (binds v)) (m_map m))) - set (map fst (m_host m)) = {}
     \<longleftrightarrow> binds_in_host m"
  unfolding binds_in_host_def Diff_eq_empty_iff subset_iff in_concat_map_prod set_map
  by blast

lemma missing_names_empty_iff:
  "(set (concat (map (\<lambda>(k, v). map volume (binds v)) (m_map m)))
      \<union> set (concat (map (\<lambda>(k, v). attaches v) (m_map m)))) - set (map fst (m_volumes m)) = {}
     \<longleftrightarrow> aliases_in_volumes m"
  unfolding aliases_in_volumes_def Diff_eq_empty_iff subset_iff Un_iff in_concat_map_prod set_map
  by blast

lemma missing_links_empty_iff:
  "set (concat (map (\<lambda>(k, v). map container (links_to v)) (m_map m)))
      - set (concat (map (\<lambda>(k, v). get_instance_names k (instances v)) (m_map m))) = {}
     \<longleftrightarrow> links_resolve m"
  unfolding links_resolve_def is_container_instance_def Diff_eq_empty_iff subset_iff
    in_concat_map_prod set_map
  by blast

lemma check_integrity_cases:
  assumes "m_map m \<noteq> []"
  shows "check_integrity True m =
     (if \<not> names_unique m
        then Inl (ValueError (DuplicatedSharedOrAttached
               (set (filter (\<lambda>name. 1 < count_list (shared_and_attached_names m) name)
                  (shared_and_attached_names m)))))
      else if \<not> uses_resolve m
        then Inl (ValueError (NoSharedOrAttachedForUsed
               (set (concat (map (\<lambda>(k, v). uses v) (m_map m))) - set (shared_and_attached_names m))))
      else if \<not> binds_in_host m
        then Inl (ValueError (NoHostShareForMapped
               (set (concat (map (\<lambda>(k, v). map volume (binds v)) (m_map m))) - set (map fst (m_host m)))))
      else if \<not> aliases_in_volumes m
        then Inl (ValueError (NoVolumePathAssignment
               ((set (concat (map (\<lambda>(k, v). map volume (binds v)) (m_map m)))
                 \<union> set (concat (map (\<lambda>(k, v). attaches v) (m_map m)))) - set (map fst (m_volumes m)))))
      else if \<not> links_resolve m
        then Inl (ValueError (NoContainerInstanceForLink
               (set (concat (map (\<lambda>(k, v). map container (links_to v)) (m_map m)))
                - set (concat (map (\<lambda>(k, v). get_instance_names k (instances v)) (m_map m))))))
      else Inr ())"
proof -
  have rows: "map (\<lambda>(k, v). get_container_items k v) (m_map m) \<noteq> []"
    using assms by simp
  have vs: "concat (map (\<lambda>(k, v). if shares v \<noteq> [] \<or> binds v \<noteq> [] then get_instance_names k (instances v) else []) (m_map m)
              @ map (\<lambda>(k, v). attaches v) (m_map m)) = shared_and_attached_names m"
    by (simp add: shared_and_attached_names_def)
  have d: "(set (filter (\<lambda>name. 1 < count_list (shared_and_attached_names m) name)
                  (shared_and_attached_names m)) = {}) \<longleftrightarrow> names_unique m"
    unfolding names_unique_def by (rule duplicated_empty_iff)
  show ?thesis
    unfolding check_integrity_def unzip_items_rows [OF assms] Let_def prod.case sum.case vs
      d missing_shares_empty_iff missing_binds_empty_iff missing_names_empty_iff
      missing_links_empty_iff
    by simp
qed

lemma check_integrity_empty:
  "m_map m = [] \<Longrightarrow> check_integrity cd m = Inl (ValueError NotEnoughValuesToUnpack)"
  by (simp add: check_integrity_def unzip_items_def)

lemma check_integrity_ok_iff:
  "check_integrity True m = Inr () \<longleftrightarrow> m_map m \<noteq> [] \<and> integrity m"
proof (cases "m_map m = []")
  case True
  then show ?thesis by (simp add: check_integrity_empty)
next
  case False
  then show ?thesis unfolding check_integrity_cases [OF False] integrity_def by simp
qed

text \<open>
  C3. A map without any container assignment (all five invariants hold of it, there
  being nothing to violate them) does not pass the check: the six columns are unpacked
  from an empty sequence, which raises \<^verbatim>\<open>ValueError\<close>. Of a map with at least one
  container the check returns normally exactly when the five invariants hold
  (\<open>check_integrity_ok_iff\<close>, \<open>check_integrity_cases\<close>).
\<close>

theorem check_integrity_without_containers:
  "m_map m = [] \<Longrightarrow>
     check_integrity cd m = Inl (ValueError NotEnoughValuesToUnpack) \<and> integrity m"
  by (simp add: check_integrity_empty integrity_def names_unique_def
      shared_and_attached_names_def uses_resolve_def binds_in_host_def aliases_in_volumes_def
      links_resolve_def)

theorem check_integrity_without_containers_witness:
  "check_integrity True \<lparr>m_name = ''main'', m_host = [(''root'', ''/var/lib/app'')], m_volumes = [], m_map = []\<rparr>
     = Inl (ValueError NotEnoughValuesToUnpack)
   \<and> integrity \<lparr>m_name = ''main'', m_host = [(''root'', ''/var/lib/app'')], m_volumes = [], m_map = []\<rparr>"
  using check_integrity_without_containers
    [of "\<lparr>m_name = ''main'', m_host = [(''root'', ''/var/lib/app'')], m_volumes = [], m_map = []\<rparr>" True]
  by simp


lemma integrity_no_containers: "m_map m = [] \<Longrightarrow> integrity m"
  by (simp add: integrity_def names_unique_def shared_and_attached_names_def uses_resolve_def
      binds_in_host_def aliases_in_volumes_def links_resolve_def)

lemma check_integrity_violation:
  assumes "\<not> integrity m"
  shows "\<exists>names. names \<noteq> {}
      \<and> (check_integrity True m = Inl (ValueError (DuplicatedSharedOrAttached names))
         \<or> check_integrity True m = Inl (ValueError (NoSharedOrAttachedForUsed names))
         \<or> check_integrity True m = Inl (ValueError (NoHostShareForMapped names))
         \<or> check_integrity True m = Inl (ValueError (NoVolumePathAssignment names))
         \<or> check_integrity True m = Inl (ValueError (NoContainerInstanceForLink names)))"
proof -
  have ne: "m_map m \<noteq> []"
    using assms integrity_no_containers by blast
  note c = check_integrity_cases [OF ne]
  consider (dup) "\<not> names_unique m"
    | (use) "names_unique m" "\<not> uses_resolve m"
    | (bind) "names_unique m" "uses_resolve m" "\<not> binds_in_host m"
    | (vol) "names_unique m" "uses_resolve m" "binds_in_host m" "\<not> aliases_in_volumes m"
    | (link) "names_unique m" "uses_resolve m" "binds_in_host m" "aliases_in_volumes m"
        "\<not> links_resolve m"
    using assms unfolding integrity_def by blast
  then show ?thesis
  proof cases
    case dup
    have "set (filter (\<lambda>name. 1 < count_list (shared_and_attached_names m) name)
            (shared_and_attached_names m)) \<noteq> {}"
      using dup duplicated_empty_iff [of "shared_and_attached_names m"]
      unfolding names_unique_def by blast
    then show ?thesis using c dup by auto
  next
    case use
    have "set (concat (map (\<lambda>(k, v). uses v) (m_map m))) - set (shared_and_attached_names m) \<noteq> {}"
      using use(2) missing_shares_empty_iff [of m] by blast
    then show ?thesis using c use by auto
  next
    case bind
    have "set (concat (map (\<lambda>(k, v). map volume (binds v)) (m_map m))) - set (map fst (m_host m))
        \<noteq> {}"
      using bind(3) missing_binds_empty_iff [of m] by blast
    then show ?thesis using c bind by auto
  next
    case vol
    have "(set (concat (map (\<lambda>(k, v). map volume (binds v)) (m_map m)))
      \<union> set (concat (map (\<lambda>(k, v). attaches v) (m_map m)))) - set (map fst (m_volumes m)) \<noteq> {}"
      using vol(4) missing_names_empty_iff [of m] by blast
    then show ?thesis using c vol by auto
  next
    case link
    have "set (concat (map (\<lambda>(k, v). map container (links_to v)) (m_map m)))
      - set (concat (map (\<lambda>(k, v). get_instance_names k (instances v)) (m_map m))) \<noteq> {}"
      using link(5) missing_links_empty_iff [of m] by blast
    then show ?thesis using c link by auto
  qed
qed

lemma rejected_keywords_Nil_iff:
  "rejected_keywords kwargs = [] \<longleftrightarrow>
     clashing_keywords [''self'', ''name'', ''initial'', ''check_integrity''] kwargs = []
     \<and> clashing_keywords [''self'', ''other''] kwargs = []"
  by (simp add: rejected_keywords_def)


text \<open>
  C7. A constructor call with initial data (a non-empty dictionary, or keyword
  arguments) and the check not disabled runs the integrity check on the updated map
  before it returns: it returns that map when the check passes and raises the check's
  error otherwise. A map that violates an invariant makes the constructor raise one of
  the five integrity errors (a \<^verbatim>\<open>ValueError\<close> naming the offending entries, which is the
  integrity error of the specification), and a map that the constructor returns satisfies
  all five invariants. A keyword argument named like a parameter of \<^verbatim>\<open>__init__\<close>, or
  \<^verbatim>\<open>other\<close>, makes the constructor raise \<^verbatim>\<open>TypeError\<close> before any update or check; no map
  is returned then either.
\<close>

theorem constructor_checks_integrity:
  assumes "(\<exists>d. initial = Some d \<and> d \<noteq> []) \<or> kwargs \<noteq> []" and "check"
  shows "(rejected_keywords kwargs = [] \<longrightarrow>
            ContainerMap_init hu vu au name initial check kwargs =
              (case check_integrity True
                      (update hu vu au \<lparr>m_name = name, m_host = [], m_volumes = [], m_map = []\<rparr>
                         initial kwargs) of
                 Inl e \<Rightarrow> Inl e
               | Inr u \<Rightarrow> Inr (update hu vu au
                                \<lparr>m_name = name, m_host = [], m_volumes = [], m_map = []\<rparr>
                                initial kwargs))
            \<and> (\<not> integrity (update hu vu au
                                \<lparr>m_name = name, m_host = [], m_volumes = [], m_map = []\<rparr>
                                initial kwargs) \<longrightarrow>
                 (\<exists>names. names \<noteq> {}
                    \<and> (ContainerMap_init hu vu au name initial check kwargs
                           = Inl (ValueError (DuplicatedSharedOrAttached names))
                       \<or> ContainerMap_init hu vu au name initial check kwargs
                           = Inl (ValueError (NoSharedOrAttachedForUsed names))
                       \<or> ContainerMap_init hu vu au name initial check kwargs
                           = Inl (ValueError (NoHostShareForMapped names))
                       \<or> ContainerMap_init hu vu au name initial check kwargs
                           = Inl (ValueError (NoVolumePathAssignment names))
                       \<or> ContainerMap_init hu vu au name initial check kwargs
                           = Inl (ValueError (NoContainerInstanceForLink names))))))
     \<and> (rejected_keywords kwargs \<noteq> [] \<longrightarrow>
            (\<exists>ks. ks \<noteq> [] \<and> set ks \<subseteq> set (rejected_keywords kwargs)
               \<and> ContainerMap_init hu vu au name initial check kwargs = Inl (TypeError ks)))
     \<and> (\<forall>m. ContainerMap_init hu vu au name initial check kwargs = Inr m \<longrightarrow>
            integrity m
            \<and> m = update hu vu au \<lparr>m_name = name, m_host = [], m_volumes = [], m_map = []\<rparr>
                    initial kwargs)"
proof -
  define m0 where
    "m0 = update hu vu au \<lparr>m_name = name, m_host = [], m_volumes = [], m_map = []\<rparr> initial kwargs"
  define r where "r = ContainerMap_init hu vu au name initial check kwargs"
  have cond: "((case initial of None \<Rightarrow> False | Some d \<Rightarrow> d \<noteq> []) \<or> kwargs \<noteq> []) \<and> check"
    using assms by (auto split: option.splits)
  have run: "r = (case check_integrity True m0 of Inl e \<Rightarrow> Inl e | Inr u \<Rightarrow> Inr m0)"
    if "rejected_keywords kwargs = []"
    using that cond unfolding r_def ContainerMap_init_def m0_def [symmetric] Let_def
      rejected_keywords_Nil_iff
    by simp
  have bad: "\<exists>names. names \<noteq> {}
      \<and> (r = Inl (ValueError (DuplicatedSharedOrAttached names))
         \<or> r = Inl (ValueError (NoSharedOrAttachedForUsed names))
         \<or> r = Inl (ValueError (NoHostShareForMapped names))
         \<or> r = Inl (ValueError (NoVolumePathAssignment names))
         \<or> r = Inl (ValueError (NoContainerInstanceForLink names)))"
    if nk: "rejected_keywords kwargs = []" and ni: "\<not> integrity m0"
  proof -
    obtain names where n: "names \<noteq> {}"
      "check_integrity True m0 = Inl (ValueError (DuplicatedSharedOrAttached names))
         \<or> check_integrity True m0 = Inl (ValueError (NoSharedOrAttachedForUsed names))
         \<or> check_integrity True m0 = Inl (ValueError (NoHostShareForMapped names))
         \<or> check_integrity True m0 = Inl (ValueError (NoVolumePathAssignment names))
         \<or> check_integrity True m0 = Inl (ValueError (NoContainerInstanceForLink names))"
      using check_integrity_violation [OF ni] by blast
    show ?thesis
      using n(2) unfolding run [OF nk]
      by (intro exI [of _ names] conjI n(1)) auto
  qed
  have clash: "\<exists>ks. ks \<noteq> [] \<and> set ks \<subseteq> set (rejected_keywords kwargs) \<and> r = Inl (TypeError ks)"
    if "rejected_keywords kwargs \<noteq> []"
  proof (cases "clashing_keywords [''self'', ''name'', ''initial'', ''check_integrity''] kwargs = []")
    case True
    then have o: "clashing_keywords [''self'', ''other''] kwargs \<noteq> []"
      using that by (simp add: rejected_keywords_def)
    show ?thesis
      by (intro exI [of _ "clashing_keywords [''self'', ''other''] kwargs"])
        (use True o in \<open>simp add: r_def ContainerMap_init_def rejected_keywords_def\<close>)
  next
    case False
    show ?thesis
      by (intro exI [of _ "clashing_keywords [''self'', ''name'', ''initial'', ''check_integrity''] kwargs"])
        (use False in \<open>simp add: r_def ContainerMap_init_def rejected_keywords_def\<close>)
  qed
  have good: "integrity m \<and> m = m0" if "r = Inr m" for m
  proof -
    have nk: "rejected_keywords kwargs = []"
      using that clash by (cases "rejected_keywords kwargs = []") auto
    show ?thesis
    proof (cases "check_integrity True m0")
      case (Inl e)
      then show ?thesis using run [OF nk] that by simp
    next
      case (Inr u)
      then have "check_integrity True m0 = Inr ()" "m = m0" using run [OF nk] that by simp_all
      then show ?thesis using check_integrity_ok_iff [of m0] by simp
    qed
  qed
  show ?thesis
    using run bad clash good unfolding m0_def r_def by blast
qed

theorem constructor_checks_integrity_witness:
  "ContainerMap_init (\<lambda>h d. h) (\<lambda>v d. v) (\<lambda>a d. d) ''main''
      (Some [(''web'', ContainerAssignment_init\<lparr>uses := [''data'']\<rparr>)]) True []
     = Inl (ValueError (NoSharedOrAttachedForUsed {''data''}))
   \<and> ContainerMap_init (\<lambda>h d. h) (\<lambda>v d. v) (\<lambda>a d. d) ''main'' None True
        [(''web'', ContainerAssignment_init\<lparr>shares := [''/data'']\<rparr>),
         (''app'', ContainerAssignment_init\<lparr>uses := [''web'']\<rparr>)]
     = Inr \<lparr>m_name = ''main'', m_host = [], m_volumes = [],
            m_map = [(''web'', ContainerAssignment_init\<lparr>shares := [''/data'']\<rparr>),
                     (''app'', ContainerAssignment_init\<lparr>uses := [''web'']\<rparr>)]\<rparr>
   \<and> ContainerMap_init (\<lambda>h d. h) (\<lambda>v d. v) (\<lambda>a d. d) ''main'' None True
        [(''other'', ContainerAssignment_init\<lparr>uses := [''data'']\<rparr>)]
     = Inl (TypeError [''other''])"
proof -
  have u1: "update (\<lambda>h d. h) (\<lambda>v d. v) (\<lambda>a d. d)
      \<lparr>m_name = ''main'', m_host = [], m_volumes = [], m_map = []\<rparr>
      (Some [(''web'', ContainerAssignment_init\<lparr>uses := [''data'']\<rparr>)]) []
    = \<lparr>m_name = ''main'', m_host = [], m_volumes = [],
       m_map = [(''web'', ContainerAssignment_init\<lparr>uses := [''data'']\<rparr>)]\<rparr>"
    by (simp add: update_def update_entry_def get_def DictMap_get_def)
  have c1: "check_integrity True \<lparr>m_name = ''main'', m_host = [], m_volumes = [],
       m_map = [(''web'', ContainerAssignment_init\<lparr>uses := [''data'']\<rparr>)]\<rparr>
    = Inl (ValueError (NoSharedOrAttachedForUsed {''data''}))"
    by code_simp
  have u2: "update (\<lambda>h d. h) (\<lambda>v d. v) (\<lambda>a d. d)
      \<lparr>m_name = ''main'', m_host = [], m_volumes = [], m_map = []\<rparr> None
      [(''web'', ContainerAssignment_init\<lparr>shares := [''/data'']\<rparr>),
       (''app'', ContainerAssignment_init\<lparr>uses := [''web'']\<rparr>)]
    = \<lparr>m_name = ''main'', m_host = [], m_volumes = [],
       m_map = [(''web'', ContainerAssignment_init\<lparr>shares := [''/data'']\<rparr>),
                (''app'', ContainerAssignment_init\<lparr>uses := [''web'']\<rparr>)]\<rparr>"
    by (simp add: update_def update_entry_def get_def DictMap_get_def)
  have c2: "check_integrity True \<lparr>m_name = ''main'', m_host = [], m_volumes = [],
       m_map = [(''web'', ContainerAssignment_init\<lparr>shares := [''/data'']\<rparr>),
                (''app'', ContainerAssignment_init\<lparr>uses := [''web'']\<rparr>)]\<rparr> = Inr ()"
    by code_simp
  have k1: "rejected_keywords ([] :: (string \<times> container_assignment) list) = []"
    by (simp add: rejected_keywords_def clashing_keywords_def)
  have k2: "rejected_keywords [(''web'', ContainerAssignment_init\<lparr>shares := [''/data'']\<rparr>),
         (''app'', ContainerAssignment_init\<lparr>uses := [''web'']\<rparr>)] = []"
    by (simp add: rejected_keywords_def clashing_keywords_def)
  have k3: "rejected_keywords [(''other'', ContainerAssignment_init\<lparr>uses := [''data'']\<rparr>)]
      = [''other'']"
    by (simp add: rejected_keywords_def clashing_keywords_def)
  have h1: "(\<exists>d. Some [(''web'', ContainerAssignment_init\<lparr>uses := [''data'']\<rparr>)] = Some d \<and> d \<noteq> [])
      \<or> ([] :: (string \<times> container_assignment) list) \<noteq> []"
    by simp
  have h2: "(\<exists>d. (None :: (string \<times> container_assignment) list option) = Some d \<and> d \<noteq> [])
      \<or> [(''web'', ContainerAssignment_init\<lparr>shares := [''/data'']\<rparr>),
          (''app'', ContainerAssignment_init\<lparr>uses := [''web'']\<rparr>)] \<noteq> []"
    by simp
  have h3: "(\<exists>d. (None :: (string \<times> container_assignment) list option) = Some d \<and> d \<noteq> [])
      \<or> [(''other'', ContainerAssignment_init\<lparr>uses := [''data'']\<rparr>)] \<noteq> []"
    by simp
  note t1 = constructor_checks_integrity [OF h1 TrueI, where hu = "\<lambda>h d. h" and vu = "\<lambda>v d. v"
      and au = "\<lambda>a d. d" and name = "''main''"]
  note t2 = constructor_checks_integrity [OF h2 TrueI, where hu = "\<lambda>h d. h" and vu = "\<lambda>v d. v"
      and au = "\<lambda>a d. d" and name = "''main''"]
  note t3 = constructor_checks_integrity [OF h3 TrueI, where hu = "\<lambda>h d. h" and vu = "\<lambda>v d. v"
      and au = "\<lambda>a d. d" and name = "''main''"]
  have bad: "ContainerMap_init (\<lambda>h d. h) (\<lambda>v d. v) (\<lambda>a d. d) ''main''
      (Some [(''web'', ContainerAssignment_init\<lparr>uses := [''data'']\<rparr>)]) True []
     = Inl (ValueError (NoSharedOrAttachedForUsed {''data''}))"
    using t1 [THEN conjunct1, rule_format, OF k1, THEN conjunct1]
    unfolding u1 c1 by simp
  have good: "ContainerMap_init (\<lambda>h d. h) (\<lambda>v d. v) (\<lambda>a d. d) ''main'' None True
        [(''web'', ContainerAssignment_init\<lparr>shares := [''/data'']\<rparr>),
         (''app'', ContainerAssignment_init\<lparr>uses := [''web'']\<rparr>)]
     = Inr \<lparr>m_name = ''main'', m_host = [], m_volumes = [],
            m_map = [(''web'', ContainerAssignment_init\<lparr>shares := [''/data'']\<rparr>),
                     (''app'', ContainerAssignment_init\<lparr>uses := [''web'']\<rparr>)]\<rparr>"
    using t2 [THEN conjunct1, rule_format, OF k2, THEN conjunct1]
    unfolding u2 c2 by simp
  have k3': "rejected_keywords [(''other'', ContainerAssignment_init\<lparr>uses := [''data'']\<rparr>)] \<noteq> []"
    unfolding k3 by simp
  obtain ks where ks: "ks \<noteq> []" "set ks \<subseteq> set [''other'']"
    "ContainerMap_init (\<lambda>h d. h) (\<lambda>v d. v) (\<lambda>a d. d) ''main'' None True
        [(''other'', ContainerAssignment_init\<lparr>uses := [''data'']\<rparr>)] = Inl (TypeError ks)"
    using t3 [THEN conjunct2, THEN conjunct1, rule_format, OF k3'] unfolding k3 by blast
  have "clashing_keywords [''self'', ''name'', ''initial'', ''check_integrity'']
      [(''other'', ContainerAssignment_init\<lparr>uses := [''data'']\<rparr>)] = []"
    by (simp add: clashing_keywords_def)
  moreover have "clashing_keywords [''self'', ''other'']
      [(''other'', ContainerAssignment_init\<lparr>uses := [''data'']\<rparr>)] = [''other'']"
    by (simp add: clashing_keywords_def)
  ultimately have "ContainerMap_init (\<lambda>h d. h) (\<lambda>v d. v) (\<lambda>a d. d) ''main'' None True
        [(''other'', ContainerAssignment_init\<lparr>uses := [''data'']\<rparr>)]
     = Inl (TypeError [''other''])"
    unfolding ContainerMap_init_def by simp
  then have clash: "ContainerMap_init (\<lambda>h d. h) (\<lambda>v d. v) (\<lambda>a d. d) ''main'' None True
        [(''other'', ContainerAssignment_init\<lparr>uses := [''data'']\<rparr>)]
     = Inl (TypeError [''other''])"
    using ks by simp
  show ?thesis using bad good clash by simp
qed

section \<open>Properties of merging dependencies\<close>

lemma set_iteration_first_seen: "set_iteration first_seen"
  by (auto simp: set_iteration_def first_seen_def)

lemma set_iteration_last_seen_first: "set_iteration last_seen_first"
  by (auto simp: set_iteration_def last_seen_first_def)

lemma merge_loop_step:
  assumes "set_iteration iter"
  shows "\<exists>b. distinct b \<and> set b = set (resolved r p) - set dep
            \<and> merge_loop iter r (p # ps) dep = merge_loop iter r ps (dep @ b)"
proof (cases "r p")
  case None
  then show ?thesis by (intro exI [of _ "[]"]) (simp add: resolved_def)
next
  case (Some d)
  show ?thesis
  proof (cases "d = []")
    case True
    then show ?thesis using Some by (intro exI [of _ "[]"]) (simp add: resolved_def)
  next
    case False
    then show ?thesis using Some assms
      by (intro exI [of _ "iter d dep"]) (simp add: resolved_def set_iteration_def)
  qed
qed

lemma merge_loop_distinct:
  assumes "set_iteration iter"
  shows "distinct dep \<Longrightarrow> distinct (merge_loop iter r ps dep)"
proof (induction ps arbitrary: dep)
  case Nil
  then show ?case by simp
next
  case (Cons p ps)
  obtain b where b: "distinct b" "set b = set (resolved r p) - set dep"
    "merge_loop iter r (p # ps) dep = merge_loop iter r ps (dep @ b)"
    using merge_loop_step [OF assms] by blast
  have "distinct (dep @ b)" using Cons.prems b(1,2) by auto
  then show ?case unfolding b(3) by (rule Cons.IH)
qed

lemma merge_loop_batches:
  assumes "set_iteration iter"
  shows "\<exists>batches. length batches = length ps
          \<and> merge_loop iter r ps dep = dep @ concat batches
          \<and> (\<forall>i<length ps. distinct (batches ! i)
                \<and> set (batches ! i) = set (resolved r (ps ! i)) - set (dep @ concat (take i batches)))"
proof (induction ps arbitrary: dep)
  case Nil
  then show ?case by simp
next
  case (Cons p ps)
  obtain b where b: "distinct b" "set b = set (resolved r p) - set dep"
    "merge_loop iter r (p # ps) dep = merge_loop iter r ps (dep @ b)"
    using merge_loop_step [OF assms] by blast
  obtain bs where bs: "length bs = length ps"
    "merge_loop iter r ps (dep @ b) = (dep @ b) @ concat bs"
    "\<forall>i<length ps. distinct (bs ! i)
        \<and> set (bs ! i) = set (resolved r (ps ! i)) - set ((dep @ b) @ concat (take i bs))"
    using Cons.IH [of "dep @ b"] by blast
  have all: "distinct ((b # bs) ! i)
        \<and> set ((b # bs) ! i) = set (resolved r ((p # ps) ! i)) - set (dep @ concat (take i (b # bs)))"
    if "i < length (p # ps)" for i
  proof (cases i)
    case 0
    then show ?thesis using b(1,2) by simp
  next
    case (Suc j)
    then have "j < length ps" using that by simp
    then show ?thesis using bs(3) Suc by simp
  qed
  show ?case
    by (intro exI [of _ "b # bs"]) (use b(3) bs(1,2) all in simp)
qed

text \<open>
  C2 (as amended). Whatever the iteration order of Python's sets, \<open>merge_dependency\<close>
  returns the direct parents first, in their given order, and after them one batch per
  parent, in the order of the parents: the batch of a parent holds the elements of that
  parent's resolved dependencies that are not yet in the list (not among the parents and
  not in an earlier batch), each once. The order inside a batch is the iteration order of
  a set and need not be the order of the resolved list.
\<close>

theorem merge_dependency_batches:
  assumes "set_iteration iter"
  shows "\<exists>batches. length batches = length parents
          \<and> merge_dependency iter item resolve_parent parents = parents @ concat batches
          \<and> (\<forall>i<length parents. distinct (batches ! i)
                \<and> set (batches ! i)
                    = set (resolved resolve_parent (parents ! i))
                      - set (parents @ concat (take i batches)))"
  unfolding merge_dependency_def using merge_loop_batches [OF assms] by blast

theorem merge_dependency_batches_witness:
  "set_iteration (last_seen_first :: string list \<Rightarrow> string list \<Rightarrow> string list)
   \<and> (\<exists>batches. length batches = length [''redis'', ''svc'']
          \<and> merge_dependency last_seen_first ''server'' example_resolve [''redis'', ''svc'']
              = [''redis'', ''svc''] @ concat batches
          \<and> (\<forall>i<length [''redis'', ''svc'']. distinct (batches ! i)
                \<and> set (batches ! i)
                    = set (resolved example_resolve ([''redis'', ''svc''] ! i))
                      - set ([''redis'', ''svc''] @ concat (take i batches))))
   \<and> merge_dependency last_seen_first ''server'' example_resolve [''redis'', ''svc'']
        = [''redis'', ''svc'', ''data'', ''base'', ''net'']"
proof -
  have v: "merge_dependency last_seen_first ''server'' example_resolve [''redis'', ''svc'']
        = [''redis'', ''svc'', ''data'', ''base'', ''net'']"
    by (simp add: merge_dependency_def last_seen_first_def example_resolve_def)
  show ?thesis
    using merge_dependency_batches [OF set_iteration_last_seen_first,
        of "[''redis'', ''svc'']" "''server''" example_resolve]
      set_iteration_last_seen_first [where ?'a = string] v
    by simp
qed

text \<open>
  The claim as stated, with every new child appended in first-seen order, fails: for the
  parent \<open>redis\<close> with the resolved dependencies \<open>base\<close>, \<open>data\<close>, a set that iterates
  \<open>data\<close> before \<open>base\<close> gives \<open>redis\<close>, \<open>data\<close>, \<open>base\<close>, where first-seen order is
  \<open>redis\<close>, \<open>base\<close>, \<open>data\<close>. Both orders are iteration orders of the set.
\<close>

theorem merge_dependency_not_first_seen:
  "set_iteration (last_seen_first :: string list \<Rightarrow> string list \<Rightarrow> string list)
   \<and> set_iteration (first_seen :: string list \<Rightarrow> string list \<Rightarrow> string list)
   \<and> merge_dependency last_seen_first ''server'' example_resolve [''redis'']
       = [''redis'', ''data'', ''base'']
   \<and> merge_dependency first_seen ''server'' example_resolve [''redis'']
       = [''redis'', ''base'', ''data'']"
  using set_iteration_last_seen_first [where ?'a = string]
    set_iteration_first_seen [where ?'a = string]
  by (simp add: merge_dependency_def last_seen_first_def first_seen_def example_resolve_def)

text \<open>
  C4. Whenever the parents hold no duplicate, the list that \<open>merge_dependency\<close> returns
  holds no element twice, whatever \<open>resolve_parent\<close> returns for each parent (lists with
  duplicates, with the parents or the item itself among them, or \<^verbatim>\<open>None\<close>) and whatever
  the iteration order of the sets.
\<close>

theorem merge_dependency_distinct:
  assumes "set_iteration iter" and "distinct parents"
  shows "distinct (merge_dependency iter item resolve_parent parents)"
  unfolding merge_dependency_def using merge_loop_distinct [OF assms(1) assms(2)] .

theorem merge_dependency_distinct_witness:
  "set_iteration (last_seen_first :: string list \<Rightarrow> string list \<Rightarrow> string list)
   \<and> distinct [''redis'', ''svc'']
   \<and> distinct (merge_dependency last_seen_first ''server''
         (\<lambda>p. Some [''redis'', ''data'', ''data'', ''svc'', ''server'']) [''redis'', ''svc''])
   \<and> merge_dependency last_seen_first ''server''
         (\<lambda>p. Some [''redis'', ''data'', ''data'', ''svc'', ''server'']) [''redis'', ''svc'']
       = [''redis'', ''svc'', ''server'', ''data'']"
proof -
  have d: "distinct [''redis'', ''svc'']" by simp
  have v: "merge_dependency last_seen_first ''server''
         (\<lambda>p. Some [''redis'', ''data'', ''data'', ''svc'', ''server'']) [''redis'', ''svc'']
       = [''redis'', ''svc'', ''server'', ''data'']"
    by (simp add: merge_dependency_def last_seen_first_def)
  show ?thesis
    using merge_dependency_distinct [OF set_iteration_last_seen_first d, of "''server''"
        "\<lambda>p. Some [''redis'', ''data'', ''data'', ''svc'', ''server'']"]
      set_iteration_last_seen_first [where ?'a = string] v
    by simp
qed

section \<open>Properties of the runner\<close>

lemma absent_or_sigterm_iff:
  "absent_or_sigterm sig \<longleftrightarrow> falsy_sig sig \<or> sig = SigName ''SIGTERM'' \<or> sig = SigNum SIGTERM"
  by (cases sig) (auto simp: absent_or_sigterm_def falsy_sig_def SIGTERM_def)


text \<open>
  C5. With no stop signal configured, or \<open>SIGTERM\<close> by name or by number, \<open>signal_stop\<close>
  makes one client call, \<open>stop\<close> with the assembled keyword arguments; when that call
  times out, a warning is logged and \<open>signal_stop\<close> returns normally, with no \<open>kill\<close> and
  no \<open>wait\<close>. With any other signal it calls \<open>kill\<close> with the container name and that
  signal and, when \<open>kill\<close> returns, \<open>wait\<close> with the container name and the timeout of
  the stop keyword arguments, or 10 when they hold none; when \<open>kill\<close> raises, the
  exception propagates and \<open>wait\<close> is not called.
\<close>

theorem signal_stop_protocol:
  "(absent_or_sigterm (stop_signal (config action)) \<longrightarrow>
      calls (snd (signal_stop respond gsk action c_name kwargs w))
        = calls w @ [Stop (gsk action c_name kwargs)]
      \<and> (respond (calls w) (Stop (gsk action c_name kwargs)) = Raised Timeout \<longrightarrow>
           signal_stop respond gsk action c_name kwargs w
             = (Inr (), w\<lparr>calls := calls w @ [Stop (gsk action c_name kwargs)],
                          log_records := log_records w @ [WarningDidNotStop]\<rparr>))
      \<and> (\<forall>v. respond (calls w) (Stop (gsk action c_name kwargs)) = Returned v \<longrightarrow>
           signal_stop respond gsk action c_name kwargs w
             = (Inr (), w\<lparr>calls := calls w @ [Stop (gsk action c_name kwargs)]\<rparr>)))
   \<and> (\<not> absent_or_sigterm (stop_signal (config action)) \<longrightarrow>
      (\<forall>v. respond (calls w) (Kill c_name (stop_signal (config action))) = Returned v \<longrightarrow>
         calls (snd (signal_stop respond gsk action c_name kwargs w))
           = calls w @ [Kill c_name (stop_signal (config action)),
                        Wait c_name (case map_of (gsk action c_name kwargs) ''timeout'' of
                                       Some t \<Rightarrow> t | None \<Rightarrow> PInt 10)])
      \<and> (\<forall>e. respond (calls w) (Kill c_name (stop_signal (config action))) = Raised e \<longrightarrow>
         fst (signal_stop respond gsk action c_name kwargs w) = Inl e
         \<and> calls (snd (signal_stop respond gsk action c_name kwargs w))
           = calls w @ [Kill c_name (stop_signal (config action))]))"
proof (cases "absent_or_sigterm (stop_signal (config action))")
  case True
  then have c: "falsy_sig (stop_signal (config action))
      \<or> stop_signal (config action) = SigName ''SIGTERM''
      \<or> stop_signal (config action) = SigNum SIGTERM"
    by (simp add: absent_or_sigterm_iff)
  show ?thesis
    using True c
    by (cases "respond (calls w) (Stop (gsk action c_name kwargs))")
      (auto simp: signal_stop_def Let_def client_call_def log_add_def)
next
  case False
  then have c: "\<not> (falsy_sig (stop_signal (config action))
      \<or> stop_signal (config action) = SigName ''SIGTERM''
      \<or> stop_signal (config action) = SigNum SIGTERM)"
    by (simp add: absent_or_sigterm_iff)
  show ?thesis
    using False c
    by (cases "respond (calls w) (Kill c_name (stop_signal (config action)))")
      (auto simp: signal_stop_def Let_def client_call_def log_add_def dict_get_def
        split: prod.splits response.splits)
qed

theorem signal_stop_protocol_witness:
  "signal_stop example_client example_stop_kwargs \<lparr>config = ContainerAssignment_init\<rparr>
       ''main.web'' [] \<lparr>calls = [], log_records = []\<rparr>
     = (Inr (), \<lparr>calls = [Stop [(''container'', PStr ''main.web'')]],
                 log_records = [WarningDidNotStop]\<rparr>)
   \<and> calls (snd (signal_stop example_client example_stop_kwargs
         \<lparr>config = ContainerAssignment_init\<lparr>stop_signal := SigName ''SIGINT''\<rparr>\<rparr>
         ''main.web'' [] \<lparr>calls = [], log_records = []\<rparr>))
     = [Kill ''main.web'' (SigName ''SIGINT''), Wait ''main.web'' (PInt 10)]
   \<and> calls (snd (signal_stop example_client example_stop_kwargs
         \<lparr>config = ContainerAssignment_init\<lparr>stop_signal := SigNum 2\<rparr>\<rparr>
         ''main.web'' [(''timeout'', PInt 30)] \<lparr>calls = [], log_records = []\<rparr>))
     = [Kill ''main.web'' (SigNum 2), Wait ''main.web'' (PInt 30)]"
proof -
  have a: "absent_or_sigterm (stop_signal (config \<lparr>config = ContainerAssignment_init\<rparr>))"
    by (simp add: absent_or_sigterm_def ContainerAssignment_init_def)
  have b: "\<not> absent_or_sigterm (stop_signal (config
      \<lparr>config = ContainerAssignment_init\<lparr>stop_signal := SigName ''SIGINT''\<rparr>\<rparr>))"
    by (simp add: absent_or_sigterm_def)
  have c: "\<not> absent_or_sigterm (stop_signal (config
      \<lparr>config = ContainerAssignment_init\<lparr>stop_signal := SigNum 2\<rparr>\<rparr>))"
    by (simp add: absent_or_sigterm_def)
  have t: "example_client [] (Stop (example_stop_kwargs \<lparr>config = ContainerAssignment_init\<rparr>
      ''main.web'' [])) = Raised Timeout"
    by (simp add: example_client_def)
  have k1: "example_client [] (Kill ''main.web'' (SigName ''SIGINT'')) = Returned None"
    by (simp add: example_client_def)
  have k2: "example_client [] (Kill ''main.web'' (SigNum 2)) = Returned None"
    by (simp add: example_client_def)
  have 1: "signal_stop example_client example_stop_kwargs \<lparr>config = ContainerAssignment_init\<rparr>
       ''main.web'' [] \<lparr>calls = [], log_records = []\<rparr>
     = (Inr (), \<lparr>calls = [Stop [(''container'', PStr ''main.web'')]],
                 log_records = [WarningDidNotStop]\<rparr>)"
    using signal_stop_protocol [of "\<lparr>config = ContainerAssignment_init\<rparr>" example_client
        example_stop_kwargs "''main.web''" "[]" "\<lparr>calls = [], log_records = []\<rparr>"] a t
    by (simp add: example_stop_kwargs_def)
  have 2: "calls (snd (signal_stop example_client example_stop_kwargs
         \<lparr>config = ContainerAssignment_init\<lparr>stop_signal := SigName ''SIGINT''\<rparr>\<rparr>
         ''main.web'' [] \<lparr>calls = [], log_records = []\<rparr>))
     = [Kill ''main.web'' (SigName ''SIGINT''), Wait ''main.web'' (PInt 10)]"
    using signal_stop_protocol [of
        "\<lparr>config = ContainerAssignment_init\<lparr>stop_signal := SigName ''SIGINT''\<rparr>\<rparr>" example_client
        example_stop_kwargs "''main.web''" "[]" "\<lparr>calls = [], log_records = []\<rparr>"] b k1
    by (simp add: example_stop_kwargs_def)
  have 3: "calls (snd (signal_stop example_client example_stop_kwargs
         \<lparr>config = ContainerAssignment_init\<lparr>stop_signal := SigNum 2\<rparr>\<rparr>
         ''main.web'' [(''timeout'', PInt 30)] \<lparr>calls = [], log_records = []\<rparr>))
     = [Kill ''main.web'' (SigNum 2), Wait ''main.web'' (PInt 30)]"
    using signal_stop_protocol [of
        "\<lparr>config = ContainerAssignment_init\<lparr>stop_signal := SigNum 2\<rparr>\<rparr>" example_client
        example_stop_kwargs "''main.web''" "[(''timeout'', PInt 30)]"
        "\<lparr>calls = [], log_records = []\<rparr>"] c k2
    by (simp add: example_stop_kwargs_def)
  show ?thesis using 1 2 3 by simp
qed














text \<open>
  C10. When the container assignment of the action has an empty list of commands, or
  none, \<open>exec_container_commands\<close> returns normally with the world as it was: no client
  call is made (and no log record written).
\<close>

theorem exec_container_commands_nothing_to_run:
  "exec_commands_attr (config action) = None \<or> exec_commands_attr (config action) = Some []
   \<Longrightarrow> exec_container_commands respond gec ges action c_name w = (Inr (), w)"
  by (auto simp: exec_container_commands_def)

theorem exec_container_commands_nothing_to_run_witness:
  "exec_container_commands example_client example_exec_create_kwargs example_exec_start_kwargs
      \<lparr>config = ContainerAssignment_init\<rparr> ''main.web'' \<lparr>calls = [], log_records = []\<rparr>
     = (Inr (), \<lparr>calls = [], log_records = []\<rparr>)
   \<and> exec_container_commands example_client example_exec_create_kwargs example_exec_start_kwargs
      \<lparr>config = ContainerAssignment_init\<lparr>exec_commands_attr := None\<rparr>\<rparr> ''main.web''
      \<lparr>calls = [], log_records = []\<rparr>
     = (Inr (), \<lparr>calls = [], log_records = []\<rparr>)"
  using exec_container_commands_nothing_to_run [of "\<lparr>config = ContainerAssignment_init\<rparr>"
      example_client example_exec_create_kwargs example_exec_start_kwargs "''main.web''"
      "\<lparr>calls = [], log_records = []\<rparr>"]
    exec_container_commands_nothing_to_run
      [of "\<lparr>config = ContainerAssignment_init\<lparr>exec_commands_attr := None\<rparr>\<rparr>"
      example_client example_exec_create_kwargs example_exec_start_kwargs "''main.web''"
      "\<lparr>calls = [], log_records = []\<rparr>"]
  by (simp add: ContainerAssignment_init_def)

end
